theory Spec2Isabelle
  imports Complex_Main "HOL-Library.Word" "HOL-Library.AList"
begin

unbundle bit_operations_syntax

chapter \<open>Data model and operations\<close>

section \<open>Producer: the processed-blocks ledger (ProcessedBlocksService)\<close>

















section \<open>Consumer: decimal helpers (utils/decimal)\<close>

text \<open>
  USD amounts are JavaScript numbers read from and written to \<open>decimal(24, 8)\<close>
  columns. They are modelled as exact rationals: every addition and subtraction of the
  source is exact here, and \<open>Number(x.toFixed(8))\<close> is rounding to the nearest multiple
  of \<open>10\<^sup>-\<^sup>8\<close>, ties away from zero. The error of binary floating point is outside
  the model.
\<close>

definition toFixed8 :: "rat \<Rightarrow> rat" where
  "toFixed8 x =
     (if x < 0 then - (of_int (round (- x * 100000000)) / 100000000)
      else of_int (round (x * 100000000)) / 100000000)"


definition safeSubtract :: "rat \<Rightarrow> rat \<Rightarrow> rat" where
  "safeSubtract a b = toFixed8 (a - b)"

definition formatDecimal :: "rat \<Rightarrow> rat" where
  "formatDecimal v = toFixed8 v"

text \<open>A value that a \<open>decimal(24, 8)\<close> column holds exactly: rounding leaves it alone.\<close>

definition decimal8 :: "rat \<Rightarrow> bool" where
  "decimal8 x = (toFixed8 x = x)"

section \<open>Consumer: ledger entities and repositories\<close>

text \<open>
  Each table is a list of rows in storage order; a row is addressed by its position, which
  stands for the generated primary key. \<open>find\<close> without an \<open>order\<close> clause returns the
  matching rows in storage order, \<open>findOne\<close> the first of them. Users carry their key in
  \<open>u_id\<close> because the other tables refer to it.
\<close>

record User =
  u_id :: nat
  walletAddress :: string
  totalUsdBalance :: rat
  floatingUsdBalance :: rat
  borrowedUsdAmount :: rat

record Deposit =
  d_user :: nat
  d_chainId :: nat
  d_chainName :: string
  d_amount :: string
  d_tokenAddress :: string
  d_transactionHash :: string
  d_blockNumber :: int
  usdValueAtDeposit :: rat
  d_status :: string

record Withdrawal =
  w_user :: nat
  w_chainId :: nat
  w_chainName :: string
  w_amount :: string
  w_tokenAddress :: string
  w_transactionHash :: string
  w_blockNumber :: int
  usdValueAtWithdrawal :: rat
  w_status :: string
  w_destinationAddress :: string
  w_requestId :: "string option"

record Borrow =
  b_user :: nat
  b_borrowedUsdAmount :: rat
  b_status :: string
  b_loanStartDate :: int
  b_loanEndDate :: "int option"
  b_repaymentAmount :: "rat option"
  b_tokenSentAddress :: string
  b_tokenAmount :: string
  b_transactionHash :: string

record VaultEvent =
  ve_blockNumber :: int
  ve_transactionHash :: string
  ve_sender :: string
  ve_asset :: string
  ve_vault :: string
  ve_chainId :: nat
  ve_amount :: string
  ve_tokenId :: nat
  ve_requestId :: "string option"
  ve_type :: string
  ve_usdValue :: rat

record Ledger =
  users :: "User list"
  deposits :: "Deposit list"
  withdrawals :: "Withdrawal list"
  borrows :: "Borrow list"


text \<open>\<open>userRepository.save(user)\<close> for a loaded user: the row with the user's key is replaced.\<close>

definition saveUser :: "User \<Rightarrow> Ledger \<Rightarrow> Ledger" where
  "saveUser user db = db\<lparr>users := map (\<lambda>u. if u_id u = u_id user then user else u) (users db)\<rparr>"

text \<open>\<open>String.prototype.toLowerCase\<close> on the ASCII strings the services handle.\<close>

definition lowerChar :: "char \<Rightarrow> char" where
  "lowerChar c =
     (case map_of (zip ''ABCDEFGHIJKLMNOPQRSTUVWXYZ'' ''abcdefghijklmnopqrstuvwxyz'') c of
        None \<Rightarrow> c
      | Some l \<Rightarrow> l)"

definition toLowerCase :: "string \<Rightarrow> string" where
  "toLowerCase s = map lowerChar s"

section \<open>Consumer: vault events (VaultEventService)\<close>

subsection \<open>Withdrawal validation\<close>

definition calculateTotalDeposits :: "User \<Rightarrow> Ledger \<Rightarrow> rat" where
  "calculateTotalDeposits user db =
     foldl (\<lambda>sum deposit. sum + usdValueAtDeposit deposit) 0
       [d \<leftarrow> deposits db. d_user d = u_id user]"

text \<open>
  \<open>find({ where: { user: { id: user.id } } })\<close> on the borrows: no condition on the status.
  The column \<open>borrowed_usd_amount\<close> is not nullable, and \<open>x || 0\<close> is \<open>x\<close> for
  every number \<open>x\<close>.
\<close>

definition calculateTotalBorrows :: "User \<Rightarrow> Ledger \<Rightarrow> rat" where
  "calculateTotalBorrows user db =
     foldl (\<lambda>sum borrow. sum + b_borrowedUsdAmount borrow) 0
       [b \<leftarrow> borrows db. b_user b = u_id user]"

definition calculatePendingWithdrawals :: "User \<Rightarrow> Ledger \<Rightarrow> rat" where
  "calculatePendingWithdrawals user db =
     foldl (\<lambda>sum withdrawal. sum + usdValueAtWithdrawal withdrawal) 0
       [w \<leftarrow> withdrawals db. w_user w = u_id user \<and> w_status w = ''pending'']"

definition availableBalance :: "User \<Rightarrow> Ledger \<Rightarrow> rat" where
  "availableBalance user db =
     calculateTotalDeposits user db - calculateTotalBorrows user db
       - calculatePendingWithdrawals user db"

definition validateWithdrawal :: "User \<Rightarrow> VaultEvent \<Rightarrow> Ledger \<Rightarrow> bool" where
  "validateWithdrawal user vaultEvent db = (availableBalance user db \<ge> ve_usdValue vaultEvent)"

text \<open>
  The available balance in the words of the specification: deposits, less completed
  withdrawals, less pending withdrawals, less active borrows.
\<close>

definition spec_availableBalance :: "User \<Rightarrow> Ledger \<Rightarrow> rat" where
  "spec_availableBalance user db =
     sum_list [usdValueAtDeposit d. d \<leftarrow> deposits db, d_user d = u_id user]
     - sum_list [usdValueAtWithdrawal w. w \<leftarrow> withdrawals db,
                   w_user w = u_id user \<and> w_status w = ''completed'']
     - sum_list [usdValueAtWithdrawal w. w \<leftarrow> withdrawals db,
                   w_user w = u_id user \<and> w_status w = ''pending'']
     - sum_list [b_borrowedUsdAmount b. b \<leftarrow> borrows db,
                   b_user b = u_id user \<and> b_status b = ''active'']"

subsection \<open>WITHDRAW_REQUEST\<close>

text \<open>
  The handler saves the withdrawal, then, for a valid request, debits the floating balance
  and saves the user. The call of \<open>completeWithdraw\<close> that follows catches its own
  errors and writes to no repository, so it does not show in the ledger.
\<close>

definition handleWithdrawRequest :: "VaultEvent \<Rightarrow> User \<Rightarrow> string \<Rightarrow> Ledger \<Rightarrow> Ledger" where
  "handleWithdrawRequest vaultEvent user chainName db =
     (let isValid = validateWithdrawal user vaultEvent db;
          withdrawal = \<lparr> w_user = u_id user,
                         w_chainId = ve_chainId vaultEvent,
                         w_chainName = chainName,
                         w_amount = ve_amount vaultEvent,
                         w_tokenAddress = ve_asset vaultEvent,
                         w_transactionHash = ve_transactionHash vaultEvent,
                         w_blockNumber = ve_blockNumber vaultEvent,
                         usdValueAtWithdrawal = ve_usdValue vaultEvent,
                         w_status = (if isValid then ''pending'' else ''rejected''),
                         w_destinationAddress = walletAddress user,
                         w_requestId = ve_requestId vaultEvent \<rparr>;
          db1 = db\<lparr>withdrawals := withdrawals db @ [withdrawal]\<rparr>
      in if isValid
         then saveUser (user\<lparr>floatingUsdBalance :=
                  formatDecimal (safeSubtract (floatingUsdBalance user) (ve_usdValue vaultEvent))\<rparr>) db1
         else db1)"

subsection \<open>WITHDRAW\<close>

text \<open>Both branches that find a withdrawal update the user in the same way.\<close>

definition completeUserTotal :: "VaultEvent \<Rightarrow> User \<Rightarrow> User" where
  "completeUserTotal vaultEvent user =
     user\<lparr>totalUsdBalance :=
       formatDecimal (safeSubtract (totalUsdBalance user) (ve_usdValue vaultEvent))\<rparr>"




section \<open>Consumer: relayer events (RelayerService)\<close>

subsection \<open>Messages and configuration\<close>



text \<open>
  An entry of \<open>SUPPORTED_CHAINS\<close>. An address that is not configured is the empty
  string; \<open>c_assets\<close> lists the addresses of the configured assets in order.
\<close>

record Chain =
  c_chainId :: nat
  c_chainName :: string
  c_relayerAddress :: string
  c_nftContractAddress :: string
  c_vaultContractAddress :: string
  c_assets :: "string list"

definition TRANSFER_EVENT_TOPIC :: string where
  "TRANSFER_EVENT_TOPIC = ''0xddf252ad1be2c89b69c2b068fc378daa952ba7f163c4a11628f55a4df523b3ef''"





subsection \<open>REPAY\<close>













section \<open>Consumer: NFT transfers and the ownership snapshot\<close>

record NftTransfer =
  nt_chainId :: nat
  nt_chainName :: string
  nt_transactionHash :: string
  nt_blockNumber :: int
  nt_blockHash :: string
  nt_tokenAddress :: string
  nt_tokenId :: string
  nt_fromAddress :: string
  nt_toAddress :: string
  nt_transactionTimestamp :: int
  nt_includedInMerkle :: bool
  nt_merkleRoot :: "string option"
  nt_logIndex :: "nat option"

text \<open>
  The ownership object \<open>{ [tokenId]: owner }\<close> is an association list in insertion order:
  assigning to a key that is present replaces its value in place, assigning to a new key
  appends it. A transfer counts when its token id and its recipient are non-empty strings.
\<close>

definition recordOwner :: "(string \<times> string) list \<Rightarrow> NftTransfer \<Rightarrow> (string \<times> string) list" where
  "recordOwner ownership transfer =
     (if nt_tokenId transfer \<noteq> [] \<and> nt_toAddress transfer \<noteq> []
      then AList.update (nt_tokenId transfer) (toLowerCase (nt_toAddress transfer)) ownership
      else ownership)"

text \<open>\<open>MerkleService.getCurrentOwnershipFromTransfers\<close>: the transfers as they are passed.\<close>

definition MerkleService_getCurrentOwnershipFromTransfers :: "NftTransfer list \<Rightarrow> (string \<times> string) list" where
  "MerkleService_getCurrentOwnershipFromTransfers transfers = foldl recordOwner [] transfers"

text \<open>
  \<open>NftTransferService.getCurrentOwnershipFromTransfers\<close> first sorts by block number;
  \<open>Array.prototype.sort\<close> is stable, as is \<open>sort_key\<close>.
\<close>

definition NftTransferService_getCurrentOwnershipFromTransfers :: "NftTransfer list \<Rightarrow> (string \<times> string) list" where
  "NftTransferService_getCurrentOwnershipFromTransfers transfers =
     (let sortedTransfers = sort_key nt_blockNumber transfers
      in foldl recordOwner [] sortedTransfers)"


section \<open>Consumer: Merkle proofs (MerkleService)\<close>

text \<open>
  The libraries \<open>ethers\<close> and \<open>merkletreejs\<close> are parameters of the model. A leaf is
  \<open>solidityPackedKeccak256(["address", "uint256"], [owner, tokenId])\<close>, which throws on
  values it cannot encode (\<open>None\<close>); for a list of leaves the tree gives its root (in
  hexadecimal, without prefix), the proof of a leaf, and the verification of a proof.
\<close>

record MerkleLib =
  ml_leaf :: "string \<Rightarrow> string \<Rightarrow> string option"
  ml_getRoot :: "string list \<Rightarrow> string"
  ml_getProof :: "string list \<Rightarrow> string \<Rightarrow> string list"
  ml_verify :: "string list \<Rightarrow> string \<Rightarrow> string \<Rightarrow> bool"

record MerkleProof =
  mp_proof :: "string list"
  mp_root :: string
  mp_verified :: bool

text \<open>
  \<open>Object.entries\<close> lists the keys that are array indices (canonical decimal numbers
  below \<open>2\<^sup>3\<^sup>2 - 1\<close>) first, in ascending numeric order, and then the other keys in
  insertion order.
\<close>

definition isDigitChar :: "char \<Rightarrow> bool" where
  "isDigitChar c = (c \<in> set ''0123456789'')"

definition parseDecimal :: "string \<Rightarrow> nat" where
  "parseDecimal s = foldl (\<lambda>n c. 10 * n + (of_char c - 48)) 0 s"

definition isArrayIndex :: "string \<Rightarrow> bool" where
  "isArrayIndex s =
     (s \<noteq> [] \<and> list_all isDigitChar s \<and> (s = ''0'' \<or> hd s \<noteq> CHR ''0'')
      \<and> parseDecimal s < 4294967295)"

definition objectEntries :: "(string \<times> 'v) list \<Rightarrow> (string \<times> 'v) list" where
  "objectEntries obj =
     sort_key (\<lambda>(k, v). parseDecimal k) [e \<leftarrow> obj. isArrayIndex (fst e)]
     @ [e \<leftarrow> obj. \<not> isArrayIndex (fst e)]"

text \<open>The leaves of the ownership object; \<open>None\<close> when a leaf cannot be encoded.\<close>

definition createLeavesFromOwnership :: "MerkleLib \<Rightarrow> (string \<times> string) list \<Rightarrow> string list option" where
  "createLeavesFromOwnership lib ownership =
     those (map (\<lambda>(tokenId, owner). ml_leaf lib (toLowerCase owner) tokenId)
              (objectEntries ownership))"

text \<open>
  \<open>findOne({ where: { includedInMerkle: true, merkleRoot: Not(IsNull()) },
  order: { blockNumber: "DESC" } })\<close>.
\<close>

definition findLatestWithRoot :: "NftTransfer list \<Rightarrow> NftTransfer option" where
  "findLatestWithRoot table =
     (case rev (sort_key nt_blockNumber
                  [t \<leftarrow> table. nt_includedInMerkle t \<and> nt_merkleRoot t \<noteq> None]) of
        [] \<Rightarrow> None
      | t # _ \<Rightarrow> Some t)"

text \<open>
  \<open>find({ where: { blockNumber: LessThanOrEqual(n) }, order: { blockNumber: "ASC" } })\<close>
  and the ownership rebuilt from it.
\<close>

definition transfersUpTo :: "NftTransfer list \<Rightarrow> int \<Rightarrow> NftTransfer list" where
  "transfersUpTo table n = sort_key nt_blockNumber [t \<leftarrow> table. nt_blockNumber t \<le> n]"

definition ownershipUpTo :: "NftTransfer list \<Rightarrow> int \<Rightarrow> (string \<times> string) list" where
  "ownershipUpTo table n = MerkleService_getCurrentOwnershipFromTransfers (transfersUpTo table n)"

text \<open>
  \<open>getMerkleProof\<close>. Every exception inside is caught and turned into \<open>null\<close>. The
  token id arrives as a string or as a number and is used as a string.
\<close>

definition getMerkleProof :: "MerkleLib \<Rightarrow> NftTransfer list \<Rightarrow> string \<Rightarrow> string \<Rightarrow> MerkleProof option" where
  "getMerkleProof lib table owner tokenId =
     (let normalizedOwner = toLowerCase owner;
          normalizedTokenId = tokenId
      in case findLatestWithRoot table of
           None \<Rightarrow> None
         | Some latestTransfer \<Rightarrow>
             if nt_merkleRoot latestTransfer = None \<or> nt_merkleRoot latestTransfer = Some [] then None
             else
               let currentOwnership = ownershipUpTo table (nt_blockNumber latestTransfer)
               in case createLeavesFromOwnership lib currentOwnership of
                    None \<Rightarrow> None
                  | Some leaves \<Rightarrow>
                      if leaves = [] then None
                      else
                        (case map_of currentOwnership normalizedTokenId of
                           None \<Rightarrow> None
                         | Some actualOwner \<Rightarrow>
                             if actualOwner = [] \<or> toLowerCase actualOwner \<noteq> normalizedOwner
                             then None
                             else
                               (case ml_leaf lib normalizedOwner normalizedTokenId of
                                  None \<Rightarrow> None
                                | Some targetLeaf \<Rightarrow>
                                    let proof = ml_getProof lib leaves targetLeaf;
                                        verified = ml_verify lib proof targetLeaf (ml_getRoot lib leaves)
                                    in if \<not> verified then None
                                       else Some \<lparr> mp_proof = map (\<lambda>p. ''0x'' @ p) proof,
                                                   mp_root = ''0x'' @ ml_getRoot lib leaves,
                                                   mp_verified = verified \<rparr>)))"

definition MerkleService_verifyNftOwnership :: "MerkleLib \<Rightarrow> NftTransfer list \<Rightarrow> string \<Rightarrow> string \<Rightarrow> bool" where
  "MerkleService_verifyNftOwnership lib table owner tokenId =
     (case getMerkleProof lib table owner tokenId of
        None \<Rightarrow> False
      | Some proof \<Rightarrow> mp_verified proof)"

text \<open>A number as JavaScript prints it: decimal digits, no leading zero.\<close>

fun decimal :: "nat \<Rightarrow> string" where
  "decimal n =
     (if n < 10 then [''0123456789'' ! n]
      else decimal (n div 10) @ [''0123456789'' ! (n mod 10)])"

text \<open>
  \<open>RelayerService.verifyNftOwnership\<close>: the Merkle verification first and, whenever it
  does not verify, the vault events of type deposit by that sender for that token.
\<close>

definition RelayerService_verifyNftOwnership ::
  "MerkleLib \<Rightarrow> NftTransfer list \<Rightarrow> VaultEvent list \<Rightarrow> string \<Rightarrow> nat \<Rightarrow> bool" where
  "RelayerService_verifyNftOwnership lib table vaultEvents userAddress tokenId =
     (let normalizedAddress = toLowerCase userAddress;
          isVerified = MerkleService_verifyNftOwnership lib table normalizedAddress (decimal tokenId)
      in if isVerified then True
         else
           let deposits = [e \<leftarrow> vaultEvents. ve_sender e = normalizedAddress
                              \<and> ve_tokenId e = tokenId \<and> ve_type e = ''deposit'']
           in deposits \<noteq> [])"

section \<open>Consumer: recording NFT transfers (NftTransferService)\<close>















section \<open>Producer: matching receipt logs against topic filters (BlockchainEventsProcessor)\<close>


subsection \<open>The Bloom filter of the processor\<close>

text \<open>The \<open>Uint8Array\<close> is the list of its entries.\<close>

record BloomFilter =
  bf_filter :: "nat list"
  bf_size :: nat
  bf_hashFunctions :: nat


text \<open>
  \<open>h = (h << 5) - h + str.charCodeAt(i); h = h & h\<close> keeps \<open>h\<close> a signed 32-bit integer,
  and \<open>Math.abs\<close> of the last one is returned. The seeds are the small numbers
  \<open>0 .. hashFunctions - 1\<close>.
\<close>

definition BloomFilter_hash :: "string \<Rightarrow> nat \<Rightarrow> nat" where
  "BloomFilter_hash str seed =
     nat \<bar>sint (foldl (\<lambda>h c. push_bit 5 h - h + of_nat (of_char c)) (of_nat seed :: 32 word) str)\<bar>"

definition BloomFilter_positions :: "BloomFilter \<Rightarrow> string \<Rightarrow> nat list" where
  "BloomFilter_positions bf str =
     map (\<lambda>i. BloomFilter_hash str i mod bf_size bf) [0 ..< bf_hashFunctions bf]"

definition BloomFilter_add :: "BloomFilter \<Rightarrow> string \<Rightarrow> BloomFilter" where
  "BloomFilter_add bf str =
     bf\<lparr>bf_filter := foldl (\<lambda>a position. a[position := 1]) (bf_filter bf)
                         (BloomFilter_positions bf str)\<rparr>"




subsection \<open>Filtering a receipt\<close>








section \<open>Consumer: collateral requests (RelayerService)\<close>

text \<open>The stored request; status 1 is pending, 2 approved, 3 rejected.\<close>

record RelayerEvent =
  rq_requestId :: string
  rq_tokenId :: nat
  rq_protocol :: string
  rq_asset :: string
  rq_sender :: string
  rq_amount :: string
  rq_deadline :: int
  rq_status :: nat
  rq_errorData :: "string option"
  rq_chainId :: nat

text \<open>
  What the validation reads. \<open>rv_currentTime\<close> is \<open>Math.floor(Date.now() / 1000)\<close>. The
  three amounts are the results of \<open>calculateAssetValueAndLTV\<close> (its \<open>totalLTV\<close>),
  \<open>calculateTotalUtilization\<close> and \<open>getAmountInUsd\<close>, each of which catches its own errors
  and returns a number. \<open>rv_relayerContracts\<close> gives the relayer contract of a chain; given the calls
  sent before, the contract answers \<open>processRequest(requestId, approval)\<close> followed by
  \<open>tx.wait()\<close> with \<open>None\<close>, or with the message of the error it throws.
\<close>

record RelayerEnv =
  rv_currentTime :: int
  rv_users :: "User list"
  rv_lib :: MerkleLib
  rv_transfers :: "NftTransfer list"
  rv_vaultEvents :: "VaultEvent list"
  rv_totalLTV :: "nat \<Rightarrow> rat"
  rv_totalUtilization :: "nat \<Rightarrow> nat \<Rightarrow> rat"
  rv_amountInUsd :: "string \<Rightarrow> string \<Rightarrow> nat \<Rightarrow> rat"
  rv_relayerContracts ::
    "nat \<Rightarrow> ((string \<times> bool) list \<Rightarrow> string \<Rightarrow> bool \<Rightarrow> string option) option"

text \<open>
  What the validation leaves behind: the \<open>processRequest\<close> calls sent to the contract, in
  order, and the request as it was last saved.
\<close>

record RelayerState =
  rs_calls :: "(string \<times> bool) list"
  rs_request :: RelayerEvent

text \<open>
  \<open>processRequestOnChain\<close> returns the error it throws, if any, and the state it reached.
  The request is changed and saved only after the transaction is confirmed.
\<close>

definition processRequestOnChain ::
    "RelayerEnv \<Rightarrow> Chain \<Rightarrow> bool \<Rightarrow> string option \<Rightarrow> RelayerState
       \<Rightarrow> string option \<times> RelayerState" where
  "processRequestOnChain env chain approval errorReason st =
     (let request = rs_request st
      in case rv_relayerContracts env (c_chainId chain) of
           None \<Rightarrow> (Some (''Relayer contract not found for chain '' @ decimal (c_chainId chain)), st)
         | Some relayerContract \<Rightarrow>
             let sent = st\<lparr>rs_calls := rs_calls st @ [(rq_requestId request, approval)]\<rparr>
             in case relayerContract (rs_calls st) (rq_requestId request) approval of
                  Some message \<Rightarrow> (Some message, sent)
                | None \<Rightarrow>
                    (None,
                     sent\<lparr>rs_request :=
                            request\<lparr>rq_status := (if approval then 2 else 3),
                                    rq_errorData :=
                                      (case errorReason of
                                         None \<Rightarrow> rq_errorData request
                                       | Some reason \<Rightarrow>
                                           if \<not> approval \<and> reason \<noteq> [] then Some reason
                                           else rq_errorData request)\<rparr>\<rparr>))"

text \<open>
  \<open>validateAndProcessRequest\<close>: the checks in the order of the code, each ending in one
  call of \<open>processRequestOnChain\<close>; an error thrown there is caught and answered with a
  second call that rejects with the message of the error.
\<close>

definition validateAndProcessRequest ::
    "RelayerEnv \<Rightarrow> Chain \<Rightarrow> RelayerState \<Rightarrow> string option \<times> RelayerState" where
  "validateAndProcessRequest env chain st =
     (let request = rs_request st;
          attempt =
            (if rq_deadline request < rv_currentTime env
             then processRequestOnChain env chain False (Some ''Request expired'') st
             else
               case find (\<lambda>u. walletAddress u = rq_sender request) (rv_users env) of
                 None \<Rightarrow> processRequestOnChain env chain False (Some ''User not found'') st
               | Some user \<Rightarrow>
                   let isNftVerified =
                         RelayerService_verifyNftOwnership (rv_lib env) (rv_transfers env)
                           (rv_vaultEvents env) (rq_sender request) (rq_tokenId request)
                   in if \<not> isNftVerified
                      then processRequestOnChain env chain False
                             (Some ''NFT ownership verification failed'') st
                      else
                        let totalLTV = rv_totalLTV env (rq_tokenId request);
                            totalUtilization =
                              rv_totalUtilization env (rq_tokenId request) (c_chainId chain);
                            amountInUsd =
                              rv_amountInUsd env (rq_asset request) (rq_amount request)
                                (c_chainId chain);
                            isWithinLtvLimit = (totalUtilization + amountInUsd \<le> totalLTV)
                        in if \<not> isWithinLtvLimit
                           then processRequestOnChain env chain False
                                  (Some ''Exceeds LTV limits'') st
                           else processRequestOnChain env chain True None st)
      in case fst attempt of
           None \<Rightarrow> attempt
         | Some message \<Rightarrow>
             processRequestOnChain env chain False (Some (''Error: '' @ message)) (snd attempt))"

text \<open>
  The condition of approval as the specification words it: the utilisation with the
  requested amount is within the LTV, the ownership verifies, and the deadline is in the
  future.
\<close>

definition spec_approved :: "RelayerEnv \<Rightarrow> Chain \<Rightarrow> RelayerEvent \<Rightarrow> bool" where
  "spec_approved env chain request \<longleftrightarrow>
     rv_totalUtilization env (rq_tokenId request) (c_chainId chain)
       + rv_amountInUsd env (rq_asset request) (rq_amount request) (c_chainId chain)
         \<le> rv_totalLTV env (rq_tokenId request)
     \<and> RelayerService_verifyNftOwnership (rv_lib env) (rv_transfers env) (rv_vaultEvents env)
         (rq_sender request) (rq_tokenId request)
     \<and> rv_currentTime env < rq_deadline request"

chapter \<open>Properties\<close>

section \<open>The processed-blocks ledger\<close>

lemma sort_key_Nil_iff: "sort_key f xs = [] \<longleftrightarrow> xs = []"
  using length_sort [of f xs] by (metis length_0_conv)









section \<open>Rounding to eight decimals\<close>

lemma toFixed8_Ints: "toFixed8 x * 100000000 \<in> \<int>"
  by (simp add: toFixed8_def)

lemma toFixed8_of_grid:
  assumes "x * 100000000 \<in> \<int>"
  shows "toFixed8 x = x"
proof -
  from assms obtain k :: int where k: "x * 100000000 = of_int k" by (auto elim: Ints_cases)
  then have x: "x = of_int k / 100000000" by simp
  show ?thesis
  proof (cases "x < 0")
    case True
    have "- x * 100000000 = of_int (- k)" using k by simp
    then have "round (- x * 100000000) = - k" by (simp only: round_of_int)
    with True show ?thesis by (simp add: toFixed8_def x)
  next
    case False
    have "round (x * 100000000) = k" using k by (simp only: round_of_int)
    with False show ?thesis by (simp add: toFixed8_def x)
  qed
qed

lemma decimal8_iff: "decimal8 x \<longleftrightarrow> x * 100000000 \<in> \<int>"
  unfolding decimal8_def using toFixed8_Ints [of x] toFixed8_of_grid [of x] by metis

lemma toFixed8_idem: "toFixed8 (toFixed8 x) = toFixed8 x"
  by (rule toFixed8_of_grid) (rule toFixed8_Ints)

lemma decimal8_diff: "decimal8 a \<Longrightarrow> decimal8 b \<Longrightarrow> decimal8 (a - b)"
  unfolding decimal8_iff by (simp add: left_diff_distrib)

lemma decimal8_add: "decimal8 a \<Longrightarrow> decimal8 b \<Longrightarrow> decimal8 (a + b)"
  unfolding decimal8_iff by (simp add: distrib_right)


lemma formatDecimal_safeSubtract:
  "formatDecimal (safeSubtract a b) = toFixed8 (a - b)"
  by (simp add: formatDecimal_def safeSubtract_def toFixed8_idem)

lemma formatDecimal_safeSubtract_exact:
  "decimal8 a \<Longrightarrow> decimal8 b \<Longrightarrow> formatDecimal (safeSubtract a b) = a - b"
  using decimal8_diff [of a b] by (simp add: formatDecimal_safeSubtract decimal8_def)



section \<open>Vault events: the WITHDRAW handler\<close>






lemma completeUserTotal_fields:
  "u_id (completeUserTotal ev user) = u_id user"
  "walletAddress (completeUserTotal ev user) = walletAddress user"
  "floatingUsdBalance (completeUserTotal ev user) = floatingUsdBalance user"
  "borrowedUsdAmount (completeUserTotal ev user) = borrowedUsdAmount user"
  "totalUsdBalance (completeUserTotal ev user) = toFixed8 (totalUsdBalance user - ve_usdValue ev)"
  by (simp_all add: completeUserTotal_def formatDecimal_safeSubtract)





section \<open>Vault events: the WITHDRAW_REQUEST handler\<close>

text \<open>
  C1 at a concrete ledger. The user deposited 100 USD and has already withdrawn them
  (one completed withdrawal of 100 USD), so the available balance in the words of the
  specification is 0 and a further request for 100 USD has to be rejected.
  \<open>validateWithdrawal\<close> subtracts only the borrows and the pending withdrawals from the
  deposits: it computes 100, and the handler saves the new withdrawal as pending and
  debits the floating balance to -100.
\<close>

theorem C1_completed_withdrawal_ignored_by_validation:
  "(let ev = \<lparr>ve_blockNumber = 12, ve_transactionHash = ''0xtx3'', ve_sender = ''0xa'',
               ve_asset = ''0xt'', ve_vault = ''0xv'', ve_chainId = 80094, ve_amount = ''100'',
               ve_tokenId = 7, ve_requestId = Some ''0xr2'', ve_type = ''withdraw_request'',
               ve_usdValue = 100\<rparr>;
        user = \<lparr>u_id = 0, walletAddress = ''0xa'', totalUsdBalance = 0,
                 floatingUsdBalance = 0, borrowedUsdAmount = 0\<rparr>;
        db = \<lparr>users = [user],
               deposits = [\<lparr>d_user = 0, d_chainId = 80094, d_chainName = ''berachain'',
                   d_amount = ''100'', d_tokenAddress = ''0xt'', d_transactionHash = ''0xtx0'',
                   d_blockNumber = 9, usdValueAtDeposit = 100, d_status = ''confirmed''\<rparr>],
               withdrawals = [\<lparr>w_user = 0, w_chainId = 80094, w_chainName = ''berachain'',
                   w_amount = ''100'', w_tokenAddress = ''0xt'', w_transactionHash = ''0xtx1'',
                   w_blockNumber = 10, usdValueAtWithdrawal = 100, w_status = ''completed'',
                   w_destinationAddress = ''0xa'', w_requestId = Some ''0xr1''\<rparr>],
               borrows = []\<rparr>
    in spec_availableBalance user db = 0
       \<and> \<not> (spec_availableBalance user db \<ge> ve_usdValue ev)
       \<and> availableBalance user db = 100
       \<and> map w_status (withdrawals (handleWithdrawRequest ev user ''berachain'' db))
             = [''completed'', ''pending'']
       \<and> map floatingUsdBalance (users (handleWithdrawRequest ev user ''berachain'' db)) = [- 100])"
proof -
  have r: "toFixed8 (- 100) = - 100"
    by (rule toFixed8_of_grid) simp
  show ?thesis
    by (simp add: Let_def spec_availableBalance_def availableBalance_def calculateTotalDeposits_def
        calculateTotalBorrows_def calculatePendingWithdrawals_def handleWithdrawRequest_def
        validateWithdrawal_def saveUser_def formatDecimal_safeSubtract r)
qed

section \<open>Relayer events: the REPAY handler\<close>

































section \<open>The ownership snapshot\<close>

lemma map_of_recordOwner:
  "map_of (recordOwner own t) k
     = (if nt_tokenId t \<noteq> [] \<and> nt_toAddress t \<noteq> [] \<and> nt_tokenId t = k
        then Some (toLowerCase (nt_toAddress t)) else map_of own k)"
  by (simp add: recordOwner_def AList.update_conv')

lemma map_of_foldl_recordOwner:
  "map_of (foldl recordOwner own ts) k
     = (case rev [t \<leftarrow> ts. nt_tokenId t \<noteq> [] \<and> nt_toAddress t \<noteq> [] \<and> nt_tokenId t = k] of
          [] \<Rightarrow> map_of own k
        | t # _ \<Rightarrow> Some (toLowerCase (nt_toAddress t)))"
proof (induction ts rule: rev_induct)
  case Nil
  then show ?case by simp
next
  case (snoc t ts)
  show ?case
    by (auto simp add: map_of_recordOwner snoc.IH)
qed

lemma last_filter_last: "xs \<noteq> [] \<Longrightarrow> P (last xs) \<Longrightarrow> last (filter P xs) = last xs"
  by (induction xs rule: rev_induct) simp_all

lemma last_sort_key:
  assumes "xs \<noteq> []"
  shows "last (sort_key f xs) = last [x \<leftarrow> xs. f x = Max (f ` set xs)]"
proof -
  let ?s = "sort_key f xs"
  let ?m = "f (last ?s)"
  have ne: "?s \<noteq> []" using assms by (metis length_0_conv length_sort)
  have srt: "sorted (map f ?s)" by (rule sorted_sort_key)
  have mem: "last ?s \<in> set xs" using ne by (metis last_in_set set_sort)
  have "\<forall>x \<in> set ?s. f x \<le> ?m"
  proof
    fix x assume "x \<in> set ?s"
    then obtain i where i: "i < length ?s" "?s ! i = x" by (metis in_set_conv_nth)
    have "map f ?s ! i \<le> map f ?s ! (length ?s - 1)"
      using srt i(1) by (intro sorted_nth_mono) simp_all
    with i ne show "f x \<le> ?m" by (simp add: last_conv_nth)
  qed
  then have ub: "\<forall>x \<in> set xs. f x \<le> ?m" by simp
  have mx: "Max (f ` set xs) = ?m"
  proof (rule Max_eqI)
    show "finite (f ` set xs)" by simp
    show "y \<le> ?m" if "y \<in> f ` set xs" for y
    proof -
      from that obtain x where "x \<in> set xs" "y = f x" by blast
      with ub show ?thesis by blast
    qed
    show "?m \<in> f ` set xs" using mem by (rule imageI)
  qed
  have st: "[x \<leftarrow> ?s. f x = ?m] = [x \<leftarrow> xs. f x = ?m]"
    by (rule sort_key_stable)
  have "last [x \<leftarrow> ?s. f x = ?m] = last ?s"
    by (rule last_filter_last [OF ne refl])
  then have "last [x \<leftarrow> xs. f x = ?m] = last ?s" unfolding st .
  then show ?thesis unfolding mx by (rule sym)
qed


lemma map_of_snapshot:
  "map_of (foldl recordOwner [] ts) k
     = (if [t \<leftarrow> ts. nt_tokenId t \<noteq> [] \<and> nt_toAddress t \<noteq> [] \<and> nt_tokenId t = k] = []
        then None
        else Some (toLowerCase (nt_toAddress
               (last [t \<leftarrow> ts. nt_tokenId t \<noteq> [] \<and> nt_toAddress t \<noteq> [] \<and> nt_tokenId t = k]))))"
proof -
  define vs where "vs = [t \<leftarrow> ts. nt_tokenId t \<noteq> [] \<and> nt_toAddress t \<noteq> [] \<and> nt_tokenId t = k]"
  have "map_of (foldl recordOwner [] ts) k
          = (case rev vs of [] \<Rightarrow> None | t # _ \<Rightarrow> Some (toLowerCase (nt_toAddress t)))"
    unfolding vs_def by (simp add: map_of_foldl_recordOwner cong: list.case_cong)
  also have "\<dots> = (if vs = [] then None else Some (toLowerCase (nt_toAddress (last vs))))"
    by (cases vs rule: rev_cases) simp_all
  finally show ?thesis unfolding vs_def .
qed

text \<open>
  C6, amended. For every list of transfers and every token id, with \<open>vs\<close> the transfers of
  that token that have a non-empty token id and recipient, in list order:
  \<^item> the snapshot of \<open>NftTransferService\<close> has no entry when \<open>vs\<close> is empty, and otherwise
    maps the token to the lower-cased recipient of the last element of \<open>vs\<close> among those
    with the greatest block number (ties go to the later list position; the log index is
    not read);
  \<^item> the snapshot of \<open>MerkleService\<close> maps it to the lower-cased recipient of the last
    element of \<open>vs\<close>;
  \<^item> on a list sorted by block number, as the repository queries deliver it, the two agree.
\<close>

theorem C6_snapshot_greatest_block_then_list_order:
  fixes ts :: "NftTransfer list" and k :: string
  defines "vs \<equiv> [t \<leftarrow> ts. nt_tokenId t \<noteq> [] \<and> nt_toAddress t \<noteq> [] \<and> nt_tokenId t = k]"
  shows "map_of (NftTransferService_getCurrentOwnershipFromTransfers ts) k
           = (if vs = [] then None
              else Some (toLowerCase (nt_toAddress
                     (last [t \<leftarrow> vs. nt_blockNumber t = Max (nt_blockNumber ` set vs)]))))
         \<and> map_of (MerkleService_getCurrentOwnershipFromTransfers ts) k
           = (if vs = [] then None else Some (toLowerCase (nt_toAddress (last vs))))
         \<and> (sorted (map nt_blockNumber ts)
              \<longrightarrow> MerkleService_getCurrentOwnershipFromTransfers ts
                  = NftTransferService_getCurrentOwnershipFromTransfers ts)"
proof (intro conjI impI)
  let ?P = "\<lambda>t. nt_tokenId t \<noteq> [] \<and> nt_toAddress t \<noteq> [] \<and> nt_tokenId t = k"
  have fs: "filter ?P (sort_key nt_blockNumber ts) = sort_key nt_blockNumber vs"
    unfolding vs_def by (rule filter_sort)
  have e: "sort_key nt_blockNumber vs = [] \<longleftrightarrow> vs = []"
    by (rule sort_key_Nil_iff)
  have "map_of (NftTransferService_getCurrentOwnershipFromTransfers ts) k
          = (if vs = [] then None
             else Some (toLowerCase (nt_toAddress (last (sort_key nt_blockNumber vs)))))"
    unfolding NftTransferService_getCurrentOwnershipFromTransfers_def Let_def
      map_of_snapshot fs e ..
  then show "map_of (NftTransferService_getCurrentOwnershipFromTransfers ts) k
           = (if vs = [] then None
              else Some (toLowerCase (nt_toAddress
                     (last [t \<leftarrow> vs. nt_blockNumber t = Max (nt_blockNumber ` set vs)]))))"
    by (simp add: last_sort_key)
  show "map_of (MerkleService_getCurrentOwnershipFromTransfers ts) k
           = (if vs = [] then None else Some (toLowerCase (nt_toAddress (last vs))))"
    unfolding MerkleService_getCurrentOwnershipFromTransfers_def map_of_snapshot
      vs_def [symmetric] ..
  assume "sorted (map nt_blockNumber ts)"
  then have "sort_key nt_blockNumber ts = ts" by (rule sort_key_id_if_sorted)
  then show "MerkleService_getCurrentOwnershipFromTransfers ts
                  = NftTransferService_getCurrentOwnershipFromTransfers ts"
    by (simp add: MerkleService_getCurrentOwnershipFromTransfers_def
        NftTransferService_getCurrentOwnershipFromTransfers_def)
qed

text \<open>
  C6, as stated, fails. Two transfers of token 5 in block 10, with log indices 7 and 3:
  passed in this order, the recipient of the second (log index 3) wins, and passed in the
  other order the recipient of the first wins, so neither the log index decides nor is the
  result independent of the input order. \<open>MerkleService\<close>, which does not sort, lets a
  transfer of block 10 that comes after a transfer of block 12 win.
\<close>

theorem C6_snapshot_order_dependent_counterexample:
  "(let t1 = \<lparr>nt_chainId = 80094, nt_chainName = ''berachain'', nt_transactionHash = ''0xh1'',
               nt_blockNumber = 10, nt_blockHash = ''0xb10'', nt_tokenAddress = ''0xn'',
               nt_tokenId = ''5'', nt_fromAddress = ''0xC3'', nt_toAddress = ''0xA1'',
               nt_transactionTimestamp = 1000, nt_includedInMerkle = False,
               nt_merkleRoot = None, nt_logIndex = Some 7\<rparr>;
        t2 = \<lparr>nt_chainId = 80094, nt_chainName = ''berachain'', nt_transactionHash = ''0xh2'',
               nt_blockNumber = 10, nt_blockHash = ''0xb10'', nt_tokenAddress = ''0xn'',
               nt_tokenId = ''5'', nt_fromAddress = ''0xC3'', nt_toAddress = ''0xB2'',
               nt_transactionTimestamp = 1000, nt_includedInMerkle = False,
               nt_merkleRoot = None, nt_logIndex = Some 3\<rparr>;
        t3 = \<lparr>nt_chainId = 80094, nt_chainName = ''berachain'', nt_transactionHash = ''0xh3'',
               nt_blockNumber = 12, nt_blockHash = ''0xb12'', nt_tokenAddress = ''0xn'',
               nt_tokenId = ''5'', nt_fromAddress = ''0xB2'', nt_toAddress = ''0xD4'',
               nt_transactionTimestamp = 1200, nt_includedInMerkle = False,
               nt_merkleRoot = None, nt_logIndex = Some 0\<rparr>
    in map_of (NftTransferService_getCurrentOwnershipFromTransfers [t1, t2]) ''5'' = Some ''0xb2''
       \<and> map_of (NftTransferService_getCurrentOwnershipFromTransfers [t2, t1]) ''5'' = Some ''0xa1''
       \<and> map_of (MerkleService_getCurrentOwnershipFromTransfers [t3, t2]) ''5'' = Some ''0xb2'')"
  by (simp add: Let_def NftTransferService_getCurrentOwnershipFromTransfers_def
      MerkleService_getCurrentOwnershipFromTransfers_def recordOwner_def toLowerCase_def
      lowerChar_def)


theorem C6_snapshot_greatest_block_then_list_order_witness:
  "(let t1 = \<lparr>nt_chainId = 80094, nt_chainName = ''berachain'', nt_transactionHash = ''0xh1'',
               nt_blockNumber = 10, nt_blockHash = ''0xb10'', nt_tokenAddress = ''0xn'',
               nt_tokenId = ''5'', nt_fromAddress = ''0xC3'', nt_toAddress = ''0xA1'',
               nt_transactionTimestamp = 1000, nt_includedInMerkle = False,
               nt_merkleRoot = None, nt_logIndex = Some 7\<rparr>;
        t3 = \<lparr>nt_chainId = 80094, nt_chainName = ''berachain'', nt_transactionHash = ''0xh3'',
               nt_blockNumber = 12, nt_blockHash = ''0xb12'', nt_tokenAddress = ''0xn'',
               nt_tokenId = ''5'', nt_fromAddress = ''0xA1'', nt_toAddress = ''0xD4'',
               nt_transactionTimestamp = 1200, nt_includedInMerkle = False,
               nt_merkleRoot = None, nt_logIndex = Some 0\<rparr>
    in sorted (map nt_blockNumber [t1, t3])
       \<and> MerkleService_getCurrentOwnershipFromTransfers [t1, t3]
           = NftTransferService_getCurrentOwnershipFromTransfers [t1, t3]
       \<and> map_of (NftTransferService_getCurrentOwnershipFromTransfers [t3, t1]) ''5'' = Some ''0xd4'')"
proof -
  let ?t1 = "\<lparr>nt_chainId = 80094, nt_chainName = ''berachain'', nt_transactionHash = ''0xh1'',
               nt_blockNumber = 10, nt_blockHash = ''0xb10'', nt_tokenAddress = ''0xn'',
               nt_tokenId = ''5'', nt_fromAddress = ''0xC3'', nt_toAddress = ''0xA1'',
               nt_transactionTimestamp = 1000, nt_includedInMerkle = False,
               nt_merkleRoot = None, nt_logIndex = Some 7\<rparr>"
  let ?t3 = "\<lparr>nt_chainId = 80094, nt_chainName = ''berachain'', nt_transactionHash = ''0xh3'',
               nt_blockNumber = 12, nt_blockHash = ''0xb12'', nt_tokenAddress = ''0xn'',
               nt_tokenId = ''5'', nt_fromAddress = ''0xA1'', nt_toAddress = ''0xD4'',
               nt_transactionTimestamp = 1200, nt_includedInMerkle = False,
               nt_merkleRoot = None, nt_logIndex = Some 0\<rparr>"
  have s: "sorted (map nt_blockNumber [?t1, ?t3])" by simp
  from C6_snapshot_greatest_block_then_list_order [of "[?t1, ?t3]" "''5''"] s
  have a: "MerkleService_getCurrentOwnershipFromTransfers [?t1, ?t3]
           = NftTransferService_getCurrentOwnershipFromTransfers [?t1, ?t3]"
    by (elim conjE impE)
  from C6_snapshot_greatest_block_then_list_order [of "[?t3, ?t1]" "''5''"]
  have b: "map_of (NftTransferService_getCurrentOwnershipFromTransfers [?t3, ?t1]) ''5'' = Some ''0xd4''"
    by (simp add: toLowerCase_def lowerChar_def)
  from s a b show ?thesis by (simp only: Let_def)
qed


section \<open>Merkle proofs and ownership verification\<close>








lemma getMerkleProof_Some_verified:
  "getMerkleProof lib table owner tokenId = Some result \<Longrightarrow> mp_verified result"
  by (auto simp: getMerkleProof_def Let_def split: option.splits if_splits)





text \<open>
  C3, amended. \<open>MerkleService.verifyNftOwnership\<close> is true exactly when
  \<open>getMerkleProof\<close> returns a proof. \<open>RelayerService.verifyNftOwnership\<close> is true exactly
  when \<open>getMerkleProof\<close> returns a proof for the lower-cased address, or the vault events
  hold a deposit by that sender for that token: the deposit history is consulted whenever
  the Merkle verification does not succeed, whatever the reason.
\<close>

theorem C3_verifyOwnership_with_deposit_fallback:
  "MerkleService_verifyNftOwnership lib table owner tokenId
     = (getMerkleProof lib table owner tokenId \<noteq> None)
   \<and> RelayerService_verifyNftOwnership lib table vaultEvents userAddress n
     = (getMerkleProof lib table (toLowerCase userAddress) (decimal n) \<noteq> None
        \<or> list_ex (\<lambda>e. ve_sender e = toLowerCase userAddress \<and> ve_tokenId e = n
                       \<and> ve_type e = ''deposit'') vaultEvents)"
proof -
  have m: "MerkleService_verifyNftOwnership lib table a t = (getMerkleProof lib table a t \<noteq> None)"
    for a t
  proof (cases "getMerkleProof lib table a t")
    case None
    then show ?thesis by (simp add: MerkleService_verifyNftOwnership_def)
  next
    case (Some r)
    with getMerkleProof_Some_verified [OF Some] show ?thesis
      by (simp add: MerkleService_verifyNftOwnership_def)
  qed
  have e: "([e \<leftarrow> vaultEvents. P e] \<noteq> []) = list_ex P vaultEvents" for P
    by (simp add: filter_empty_conv list_ex_iff)
  show ?thesis
    unfolding RelayerService_verifyNftOwnership_def Let_def e m by simp
qed

text \<open>
  C3, as stated, fails. A root is stored and the snapshot maps token 5 to \<open>0xa1\<close>, so
  \<open>getMerkleProof\<close> returns \<open>null\<close> for \<open>0xb2\<close> because the owner does not match; yet
  \<open>RelayerService.verifyNftOwnership\<close> consults the deposit history and answers true,
  since \<open>0xb2\<close> once deposited for token 5.
\<close>

theorem C3_fallback_despite_root_counterexample:
  "(let lib = \<lparr>ml_leaf = (\<lambda>owner tokenId. Some (owner @ tokenId)),
                ml_getRoot = concat,
                ml_getProof = (\<lambda>leaves leaf. leaves),
                ml_verify = (\<lambda>proof leaf root. root = concat proof)\<rparr>;
        t1 = \<lparr>nt_chainId = 80094, nt_chainName = ''berachain'', nt_transactionHash = ''0xh1'',
               nt_blockNumber = 10, nt_blockHash = ''0xb10'', nt_tokenAddress = ''0xn'',
               nt_tokenId = ''5'', nt_fromAddress = ''0xb2'', nt_toAddress = ''0xa1'',
               nt_transactionTimestamp = 1000, nt_includedInMerkle = True,
               nt_merkleRoot = Some ''0x0xa15'', nt_logIndex = None\<rparr>;
        deposit = \<lparr>ve_blockNumber = 8, ve_transactionHash = ''0xh0'', ve_sender = ''0xb2'',
               ve_asset = ''0xe'', ve_vault = ''0xv'', ve_chainId = 80094, ve_amount = ''100'',
               ve_tokenId = 5, ve_requestId = None, ve_type = ''deposit'',
               ve_usdValue = 100\<rparr>
    in findLatestWithRoot [t1] = Some t1
       \<and> map_of (ownershipUpTo [t1] 10) ''5'' = Some ''0xa1''
       \<and> getMerkleProof lib [t1] ''0xb2'' ''5'' = None
       \<and> RelayerService_verifyNftOwnership lib [t1] [deposit] ''0xb2'' 5 = True)"
  by (simp add: Let_def findLatestWithRoot_def ownershipUpTo_def transfersUpTo_def
      MerkleService_getCurrentOwnershipFromTransfers_def recordOwner_def toLowerCase_def
      lowerChar_def getMerkleProof_def createLeavesFromOwnership_def objectEntries_def
      isArrayIndex_def isDigitChar_def parseDecimal_def RelayerService_verifyNftOwnership_def
      MerkleService_verifyNftOwnership_def)


theorem C3_verifyOwnership_with_deposit_fallback_witness:
  "(let lib = \<lparr>ml_leaf = (\<lambda>owner tokenId. Some (owner @ tokenId)),
                ml_getRoot = concat,
                ml_getProof = (\<lambda>leaves leaf. leaves),
                ml_verify = (\<lambda>proof leaf root. root = concat proof)\<rparr>;
        t1 = \<lparr>nt_chainId = 80094, nt_chainName = ''berachain'', nt_transactionHash = ''0xh1'',
               nt_blockNumber = 10, nt_blockHash = ''0xb10'', nt_tokenAddress = ''0xn'',
               nt_tokenId = ''5'', nt_fromAddress = ''0xb2'', nt_toAddress = ''0xa1'',
               nt_transactionTimestamp = 1000, nt_includedInMerkle = True,
               nt_merkleRoot = Some ''0x0xa15'', nt_logIndex = None\<rparr>
    in getMerkleProof lib [t1] ''0xa1'' ''5'' \<noteq> None
       \<and> getMerkleProof lib [t1] ''0xb2'' ''5'' = None
       \<and> MerkleService_verifyNftOwnership lib [t1] ''0xa1'' ''5'' = True
       \<and> RelayerService_verifyNftOwnership lib [t1] [] ''0xA1'' 5 = True
       \<and> RelayerService_verifyNftOwnership lib [t1] [] ''0xB2'' 5 = False)"
proof -
  let ?lib = "\<lparr>ml_leaf = (\<lambda>owner tokenId. Some (owner @ tokenId)),
                ml_getRoot = concat,
                ml_getProof = (\<lambda>leaves leaf. leaves),
                ml_verify = (\<lambda>proof leaf root. root = concat proof)\<rparr>"
  let ?t1 = "\<lparr>nt_chainId = 80094, nt_chainName = ''berachain'', nt_transactionHash = ''0xh1'',
               nt_blockNumber = 10, nt_blockHash = ''0xb10'', nt_tokenAddress = ''0xn'',
               nt_tokenId = ''5'', nt_fromAddress = ''0xb2'', nt_toAddress = ''0xa1'',
               nt_transactionTimestamp = 1000, nt_includedInMerkle = True,
               nt_merkleRoot = Some ''0x0xa15'', nt_logIndex = None\<rparr>"
  have g: "getMerkleProof ?lib [?t1] ''0xa1'' ''5'' \<noteq> None"
          "getMerkleProof ?lib [?t1] ''0xb2'' ''5'' = None"
    by (simp_all add: Let_def findLatestWithRoot_def ownershipUpTo_def transfersUpTo_def
      MerkleService_getCurrentOwnershipFromTransfers_def recordOwner_def toLowerCase_def
      lowerChar_def getMerkleProof_def createLeavesFromOwnership_def objectEntries_def
      isArrayIndex_def isDigitChar_def parseDecimal_def)
  have la: "toLowerCase ''0xA1'' = ''0xa1''" "toLowerCase ''0xB2'' = ''0xb2''"
    by (simp_all add: toLowerCase_def lowerChar_def)
  have d: "decimal 5 = ''5''" by simp
  from C3_verifyOwnership_with_deposit_fallback [of ?lib "[?t1]" "''0xa1''" "''5''" "[]" "''0xA1''" 5]
  have a: "MerkleService_verifyNftOwnership ?lib [?t1] ''0xa1'' ''5'' = True
           \<and> RelayerService_verifyNftOwnership ?lib [?t1] [] ''0xA1'' 5 = True"
    unfolding la d using g(1) by simp
  from C3_verifyOwnership_with_deposit_fallback [of ?lib "[?t1]" "''0xa1''" "''5''" "[]" "''0xB2''" 5]
  have b: "RelayerService_verifyNftOwnership ?lib [?t1] [] ''0xB2'' 5 = False"
    unfolding la d using g(2) by simp
  from g a b show ?thesis by (simp add: Let_def)
qed


section \<open>Recording NFT transfers: one row per transaction hash\<close>






















section \<open>Matching receipt logs: the topic decides\<close>

lemma add_size [simp]:
  "bf_size (BloomFilter_add bf s) = bf_size bf"
  "bf_hashFunctions (BloomFilter_add bf s) = bf_hashFunctions bf"
  by (simp_all add: BloomFilter_add_def)

lemma add_positions [simp]:
  "BloomFilter_positions (BloomFilter_add bf s) s' = BloomFilter_positions bf s'"
  by (simp add: BloomFilter_positions_def)

lemma length_mark [simp]:
  "length (foldl (\<lambda>a position. a[position := v]) a ps) = length a"
  by (induction ps arbitrary: a) simp_all

lemma positions_filter_update [simp]:
  "BloomFilter_positions (bf\<lparr>bf_filter := x\<rparr>) s = BloomFilter_positions bf s"
  by (simp add: BloomFilter_positions_def)



lemma length_add [simp]:
  "length (bf_filter (BloomFilter_add bf s)) = length (bf_filter bf)"
  by (simp add: BloomFilter_add_def)








lemma BloomFilter_hash_Transfer:
  "map (BloomFilter_hash TRANSFER_EVENT_TOPIC) [0, 1, 2] = [2096805406, 1590085027, 982008164]"
  by (simp add: BloomFilter_hash_def TRANSFER_EVENT_TOPIC_def)










section \<open>Collateral requests: the verdict and the call on chain\<close>

lemma processRequestOnChain_confirmed:
  assumes "rv_relayerContracts env (c_chainId chain) = Some relayerContract"
    and "relayerContract (rs_calls st) (rq_requestId (rs_request st)) approval = None"
  shows "processRequestOnChain env chain approval errorReason st
           = (None,
              \<lparr>rs_calls = rs_calls st @ [(rq_requestId (rs_request st), approval)],
               rs_request = (rs_request st)
                 \<lparr>rq_status := (if approval then 2 else 3),
                  rq_errorData := (case errorReason of
                                     None \<Rightarrow> rq_errorData (rs_request st)
                                   | Some reason \<Rightarrow>
                                       if \<not> approval \<and> reason \<noteq> [] then Some reason
                                       else rq_errorData (rs_request st))\<rparr>\<rparr>)"
  using assms by (simp add: processRequestOnChain_def Let_def)

lemma processRequestOnChain_failed:
  assumes "rv_relayerContracts env (c_chainId chain) = Some relayerContract"
    and "relayerContract (rs_calls st) (rq_requestId (rs_request st)) approval = Some message"
  shows "processRequestOnChain env chain approval errorReason st
           = (Some message,
              \<lparr>rs_calls = rs_calls st @ [(rq_requestId (rs_request st), approval)],
               rs_request = rs_request st\<rparr>)"
  using assms by (simp add: processRequestOnChain_def Let_def)

lemma validate_first_call:
  assumes "find (\<lambda>u. walletAddress u = rq_sender (rs_request st)) (rv_users env) = Some user"
  shows "validateAndProcessRequest env chain st =
     (let request = rs_request st;
          expired = (rq_deadline request < rv_currentTime env);
          isNftVerified = RelayerService_verifyNftOwnership (rv_lib env) (rv_transfers env)
                            (rv_vaultEvents env) (rq_sender request) (rq_tokenId request);
          isWithinLtvLimit =
            (rv_totalUtilization env (rq_tokenId request) (c_chainId chain)
               + rv_amountInUsd env (rq_asset request) (rq_amount request) (c_chainId chain)
             \<le> rv_totalLTV env (rq_tokenId request));
          attempt = processRequestOnChain env chain
                      (\<not> expired \<and> isNftVerified \<and> isWithinLtvLimit)
                      (if expired then Some ''Request expired''
                       else if \<not> isNftVerified then Some ''NFT ownership verification failed''
                       else if \<not> isWithinLtvLimit then Some ''Exceeds LTV limits''
                       else None) st
      in case fst attempt of
           None \<Rightarrow> attempt
         | Some message \<Rightarrow>
             processRequestOnChain env chain False (Some (''Error: '' @ message)) (snd attempt))"
proof (cases "rq_deadline (rs_request st) < rv_currentTime env")
  case True
  then show ?thesis by (simp add: validateAndProcessRequest_def Let_def cong del: option.case_cong_weak)
next
  case live: False
  show ?thesis
  proof (cases "RelayerService_verifyNftOwnership (rv_lib env) (rv_transfers env)
                  (rv_vaultEvents env) (rq_sender (rs_request st)) (rq_tokenId (rs_request st))")
    case False
    with live assms show ?thesis by (simp add: validateAndProcessRequest_def Let_def cong del: option.case_cong_weak)
  next
    case verified: True
    show ?thesis
    proof (cases "rv_totalUtilization env (rq_tokenId (rs_request st)) (c_chainId chain)
               + rv_amountInUsd env (rq_asset (rs_request st)) (rq_amount (rs_request st))
                   (c_chainId chain)
             \<le> rv_totalLTV env (rq_tokenId (rs_request st))")
      case True
      with live verified assms show ?thesis by (simp add: validateAndProcessRequest_def Let_def cong del: option.case_cong_weak)
    next
      case False
      with live verified assms show ?thesis by (simp add: validateAndProcessRequest_def Let_def cong del: option.case_cong_weak)
    qed
  qed
qed

text \<open>
  Claim C2, amended. For a request whose sender is a stored user, on a chain with a relayer
  contract: \<open>processRequest\<close> is first called with \<open>true\<close> exactly when the utilisation plus
  the requested amount is within the LTV, the ownership verifies and the deadline is not
  before the current second, and with \<open>false\<close> otherwise. When that transaction is confirmed
  the stored request becomes approved (status 2), or rejected (status 3) with the reason of
  the first check that failed. When it fails, \<open>processRequest\<close> is called once more with
  \<open>false\<close>; confirmed, the request becomes rejected with the message of the error, and
  unconfirmed, the request stays as it was and the error is thrown.
\<close>

theorem C2_collateral_request_verdict:
  assumes "find (\<lambda>u. walletAddress u = rq_sender (rs_request st)) (rv_users env) = Some user"
    and "rv_relayerContracts env (c_chainId chain) = Some relayerContract"
  shows
    "(let request = rs_request st;
          requestId = rq_requestId request;
          isNftVerified = RelayerService_verifyNftOwnership (rv_lib env) (rv_transfers env)
                            (rv_vaultEvents env) (rq_sender request) (rq_tokenId request);
          isWithinLtvLimit =
            (rv_totalUtilization env (rq_tokenId request) (c_chainId chain)
               + rv_amountInUsd env (rq_asset request) (rq_amount request) (c_chainId chain)
             \<le> rv_totalLTV env (rq_tokenId request));
          approved = (isWithinLtvLimit \<and> isNftVerified \<and> rv_currentTime env \<le> rq_deadline request);
          reason = (if rq_deadline request < rv_currentTime env then ''Request expired''
                    else if \<not> isNftVerified then ''NFT ownership verification failed''
                    else ''Exceeds LTV limits'');
          sent = rs_calls st @ [(requestId, approved)]
      in validateAndProcessRequest env chain st =
           (case relayerContract (rs_calls st) requestId approved of
              None \<Rightarrow>
                (None, \<lparr>rs_calls = sent,
                        rs_request = request\<lparr>rq_status := (if approved then 2 else 3),
                                              rq_errorData := (if approved then rq_errorData request
                                                               else Some reason)\<rparr>\<rparr>)
            | Some message \<Rightarrow>
                (case relayerContract sent requestId False of
                   None \<Rightarrow>
                     (None, \<lparr>rs_calls = sent @ [(requestId, False)],
                             rs_request = request\<lparr>rq_status := 3,
                                                   rq_errorData := Some (''Error: '' @ message)\<rparr>\<rparr>)
                 | Some message' \<Rightarrow>
                     (Some message', \<lparr>rs_calls = sent @ [(requestId, False)],
                                      rs_request = request\<rparr>))))"
proof -
  define request where "request = rs_request st"
  define requestId where "requestId = rq_requestId request"
  define expired where "expired \<longleftrightarrow> rq_deadline request < rv_currentTime env"
  define isNftVerified where
    "isNftVerified = RelayerService_verifyNftOwnership (rv_lib env) (rv_transfers env)
                            (rv_vaultEvents env) (rq_sender request) (rq_tokenId request)"
  define isWithinLtvLimit where
    "isWithinLtvLimit \<longleftrightarrow>
            (rv_totalUtilization env (rq_tokenId request) (c_chainId chain)
               + rv_amountInUsd env (rq_asset request) (rq_amount request) (c_chainId chain)
             \<le> rv_totalLTV env (rq_tokenId request))"
  define approved where "approved \<longleftrightarrow> \<not> expired \<and> isNftVerified \<and> isWithinLtvLimit"
  define errorReason where
    "errorReason = (if expired then Some ''Request expired''
                       else if \<not> isNftVerified then Some ''NFT ownership verification failed''
                       else if \<not> isWithinLtvLimit then Some ''Exceeds LTV limits''
                       else None)"
  define reason where
    "reason = (if expired then ''Request expired''
                    else if \<not> isNftVerified then ''NFT ownership verification failed''
                    else ''Exceeds LTV limits'')"
  define sent where "sent = rs_calls st @ [(requestId, approved)]"
  define attempt where "attempt = processRequestOnChain env chain approved errorReason st"
  have v: "validateAndProcessRequest env chain st =
             (case fst attempt of
                None \<Rightarrow> attempt
              | Some message \<Rightarrow>
                  processRequestOnChain env chain False (Some (''Error: '' @ message)) (snd attempt))"
    unfolding validate_first_call [OF assms(1)] Let_def attempt_def approved_def errorReason_def
      expired_def isNftVerified_def isWithinLtvLimit_def request_def ..
  have a: "approved \<longleftrightarrow> isWithinLtvLimit \<and> isNftVerified \<and> rv_currentTime env \<le> rq_deadline request"
    unfolding approved_def expired_def by auto
  have e: "(case errorReason of
              None \<Rightarrow> rq_errorData request
            | Some r \<Rightarrow> if \<not> approved \<and> r \<noteq> [] then Some r else rq_errorData request)
           = (if approved then rq_errorData request else Some reason)"
    unfolding errorReason_def reason_def approved_def by simp
  have main: "validateAndProcessRequest env chain st =
           (case relayerContract (rs_calls st) requestId approved of
              None \<Rightarrow>
                (None, \<lparr>rs_calls = sent,
                        rs_request = request\<lparr>rq_status := (if approved then 2 else 3),
                                              rq_errorData := (if approved then rq_errorData request
                                                               else Some reason)\<rparr>\<rparr>)
            | Some message \<Rightarrow>
                (case relayerContract sent requestId False of
                   None \<Rightarrow>
                     (None, \<lparr>rs_calls = sent @ [(requestId, False)],
                             rs_request = request\<lparr>rq_status := 3,
                                                   rq_errorData := Some (''Error: '' @ message)\<rparr>\<rparr>)
                 | Some message' \<Rightarrow>
                     (Some message', \<lparr>rs_calls = sent @ [(requestId, False)],
                                      rs_request = request\<rparr>)))"
  proof (cases "relayerContract (rs_calls st) requestId approved")
    case None
    then have "relayerContract (rs_calls st) (rq_requestId (rs_request st)) approved = None"
      by (simp add: requestId_def request_def)
    from processRequestOnChain_confirmed [OF assms(2) this, of errorReason]
    have "attempt = (None, \<lparr>rs_calls = sent,
                        rs_request = request\<lparr>rq_status := (if approved then 2 else 3),
                                              rq_errorData := (if approved then rq_errorData request
                                                               else Some reason)\<rparr>\<rparr>)"
      unfolding attempt_def sent_def requestId_def request_def [symmetric] e .
    with None show ?thesis by (simp add: v)
  next
    case (Some message)
    then have "relayerContract (rs_calls st) (rq_requestId (rs_request st)) approved = Some message"
      by (simp add: requestId_def request_def)
    from processRequestOnChain_failed [OF assms(2) this, of errorReason]
    have at: "attempt = (Some message, \<lparr>rs_calls = sent, rs_request = request\<rparr>)"
      unfolding attempt_def sent_def requestId_def request_def [symmetric] .
    define st1 where "st1 = \<lparr>rs_calls = sent, rs_request = request\<rparr>"
    have v1: "validateAndProcessRequest env chain st
                = processRequestOnChain env chain False (Some (''Error: '' @ message)) st1"
      by (simp add: v at st1_def)
    have st1: "rs_calls st1 = sent" "rs_request st1 = request" by (simp_all add: st1_def)
    show ?thesis
    proof (cases "relayerContract sent requestId False")
      case None
      then have "relayerContract (rs_calls st1) (rq_requestId (rs_request st1)) False = None"
        by (simp add: st1 requestId_def)
      from processRequestOnChain_confirmed [OF assms(2) this, of "Some (''Error: '' @ message)"]
      have "processRequestOnChain env chain False (Some (''Error: '' @ message)) st1
              = (None, \<lparr>rs_calls = sent @ [(requestId, False)],
                             rs_request = request\<lparr>rq_status := 3,
                                                   rq_errorData := Some (''Error: '' @ message)\<rparr>\<rparr>)"
        by (simp add: st1 requestId_def)
      with None Some show ?thesis by (simp add: v1)
    next
      case (Some message')
      then have "relayerContract (rs_calls st1) (rq_requestId (rs_request st1)) False = Some message'"
        by (simp add: st1 requestId_def)
      from processRequestOnChain_failed [OF assms(2) this, of "Some (''Error: '' @ message)"]
      have "processRequestOnChain env chain False (Some (''Error: '' @ message)) st1
              = (Some message', \<lparr>rs_calls = sent @ [(requestId, False)], rs_request = request\<rparr>)"
        by (simp add: st1 requestId_def)
      with Some \<open>relayerContract (rs_calls st) requestId approved = Some message\<close>
      show ?thesis by (simp add: v1)
    qed
  qed
  have r: "reason = (if rq_deadline request < rv_currentTime env then ''Request expired''
                    else if \<not> isNftVerified then ''NFT ownership verification failed''
                    else ''Exceeds LTV limits'')"
    unfolding reason_def expired_def ..
  show ?thesis
    unfolding Let_def
    using main
    unfolding sent_def r a requestId_def isNftVerified_def isWithinLtvLimit_def request_def .
qed

text \<open>
  Claim C2 as stated fails in two ways. A request whose deadline is the current second is
  approved although the deadline is not in the future. And a request that passes every
  check, with its deadline in the future, ends rejected when the approving transaction
  fails: \<open>processRequest\<close> is called with \<open>true\<close> and then with \<open>false\<close>.
\<close>

theorem C2_deadline_now_and_failed_transaction_counterexample:
  "(let lib = \<lparr>ml_leaf = (\<lambda>owner tokenId. Some (owner @ tokenId)),
                ml_getRoot = concat,
                ml_getProof = (\<lambda>leaves leaf. leaves),
                ml_verify = (\<lambda>proof leaf mroot. mroot = concat proof)\<rparr>;
        t1 = \<lparr>nt_chainId = 80094, nt_chainName = ''berachain'', nt_transactionHash = ''0xh1'',
               nt_blockNumber = 10, nt_blockHash = ''0xb10'', nt_tokenAddress = ''0xn'',
               nt_tokenId = ''5'', nt_fromAddress = ''0xb2'', nt_toAddress = ''0xa1'',
               nt_transactionTimestamp = 1000, nt_includedInMerkle = True,
               nt_merkleRoot = Some ''0x0xa15'', nt_logIndex = None\<rparr>;
        user = \<lparr>u_id = 0, walletAddress = ''0xa1'', totalUsdBalance = 0,
                 floatingUsdBalance = 0, borrowedUsdAmount = 0\<rparr>;
        chain = \<lparr>c_chainId = 80094, c_chainName = ''berachain'', c_relayerAddress = ''0xre'',
                  c_nftContractAddress = ''0xn'', c_vaultContractAddress = ''0xv'',
                  c_assets = [''0xe'']\<rparr>;
        request = \<lparr>rq_requestId = ''0xr1'', rq_tokenId = 5, rq_protocol = ''0xp1'',
                    rq_asset = ''0xe'', rq_sender = ''0xa1'', rq_amount = ''100'',
                    rq_deadline = 1700000000, rq_status = 1, rq_errorData = None,
                    rq_chainId = 80094\<rparr>;
        atDeadline = \<lparr>rv_currentTime = 1700000000, rv_users = [user], rv_lib = lib,
                rv_transfers = [t1], rv_vaultEvents = [],
                rv_totalLTV = (\<lambda>tokenId. 800),
                rv_totalUtilization = (\<lambda>tokenId chainId. 100),
                rv_amountInUsd = (\<lambda>asset amount chainId. 100),
                rv_relayerContracts =
                  (\<lambda>chainId. if chainId = 80094
                             then Some (\<lambda>calls requestId approval. None)
                             else None)\<rparr>;
        reverting = \<lparr>rv_currentTime = 1699990000, rv_users = [user], rv_lib = lib,
                rv_transfers = [t1], rv_vaultEvents = [],
                rv_totalLTV = (\<lambda>tokenId. 800),
                rv_totalUtilization = (\<lambda>tokenId chainId. 100),
                rv_amountInUsd = (\<lambda>asset amount chainId. 100),
                rv_relayerContracts =
                  (\<lambda>chainId. if chainId = 80094
                             then Some (\<lambda>calls requestId approval.
                                          if approval then Some ''execution reverted''
                                          else None)
                             else None)\<rparr>;
        st = \<lparr>rs_calls = [], rs_request = request\<rparr>
    in \<not> spec_approved atDeadline chain request
       \<and> validateAndProcessRequest atDeadline chain st
           = (None, \<lparr>rs_calls = [(''0xr1'', True)],
                     rs_request = \<lparr>rq_requestId = ''0xr1'', rq_tokenId = 5, rq_protocol = ''0xp1'',
                    rq_asset = ''0xe'', rq_sender = ''0xa1'', rq_amount = ''100'',
                    rq_deadline = 1700000000, rq_status = 2, rq_errorData = None,
                    rq_chainId = 80094\<rparr>\<rparr>)
       \<and> spec_approved reverting chain request
       \<and> validateAndProcessRequest reverting chain st
           = (None, \<lparr>rs_calls = [(''0xr1'', True), (''0xr1'', False)],
                     rs_request = \<lparr>rq_requestId = ''0xr1'', rq_tokenId = 5, rq_protocol = ''0xp1'',
                    rq_asset = ''0xe'', rq_sender = ''0xa1'', rq_amount = ''100'',
                    rq_deadline = 1700000000, rq_status = 3, rq_errorData = Some ''Error: execution reverted'',
                    rq_chainId = 80094\<rparr>\<rparr>))"
proof -
  let ?lib = "\<lparr>ml_leaf = (\<lambda>owner tokenId. Some (owner @ tokenId)),
                ml_getRoot = concat,
                ml_getProof = (\<lambda>leaves leaf. leaves),
                ml_verify = (\<lambda>proof leaf mroot. mroot = concat proof)\<rparr>"
  let ?t1 = "\<lparr>nt_chainId = 80094, nt_chainName = ''berachain'', nt_transactionHash = ''0xh1'',
               nt_blockNumber = 10, nt_blockHash = ''0xb10'', nt_tokenAddress = ''0xn'',
               nt_tokenId = ''5'', nt_fromAddress = ''0xb2'', nt_toAddress = ''0xa1'',
               nt_transactionTimestamp = 1000, nt_includedInMerkle = True,
               nt_merkleRoot = Some ''0x0xa15'', nt_logIndex = None\<rparr>"
  let ?user = "\<lparr>u_id = 0, walletAddress = ''0xa1'', totalUsdBalance = 0,
                 floatingUsdBalance = 0, borrowedUsdAmount = 0\<rparr>"
  let ?chain = "\<lparr>c_chainId = 80094, c_chainName = ''berachain'', c_relayerAddress = ''0xre'',
                  c_nftContractAddress = ''0xn'', c_vaultContractAddress = ''0xv'',
                  c_assets = [''0xe'']\<rparr>"
  let ?request = "\<lparr>rq_requestId = ''0xr1'', rq_tokenId = 5, rq_protocol = ''0xp1'',
                    rq_asset = ''0xe'', rq_sender = ''0xa1'', rq_amount = ''100'',
                    rq_deadline = 1700000000, rq_status = 1, rq_errorData = None,
                    rq_chainId = 80094\<rparr>"
  have own: "RelayerService_verifyNftOwnership ?lib [?t1] [] ''0xa1'' 5"
    by (simp add: Let_def findLatestWithRoot_def ownershipUpTo_def transfersUpTo_def
      MerkleService_getCurrentOwnershipFromTransfers_def recordOwner_def toLowerCase_def
      lowerChar_def getMerkleProof_def createLeavesFromOwnership_def objectEntries_def
      isArrayIndex_def isDigitChar_def parseDecimal_def RelayerService_verifyNftOwnership_def
      MerkleService_verifyNftOwnership_def)
  show ?thesis
    by (simp add: Let_def spec_approved_def validateAndProcessRequest_def
          processRequestOnChain_def own cong del: option.case_cong_weak)
qed

theorem C2_collateral_request_verdict_witness:
  "(let lib = \<lparr>ml_leaf = (\<lambda>owner tokenId. Some (owner @ tokenId)),
                ml_getRoot = concat,
                ml_getProof = (\<lambda>leaves leaf. leaves),
                ml_verify = (\<lambda>proof leaf mroot. mroot = concat proof)\<rparr>;
        t1 = \<lparr>nt_chainId = 80094, nt_chainName = ''berachain'', nt_transactionHash = ''0xh1'',
               nt_blockNumber = 10, nt_blockHash = ''0xb10'', nt_tokenAddress = ''0xn'',
               nt_tokenId = ''5'', nt_fromAddress = ''0xb2'', nt_toAddress = ''0xa1'',
               nt_transactionTimestamp = 1000, nt_includedInMerkle = True,
               nt_merkleRoot = Some ''0x0xa15'', nt_logIndex = None\<rparr>;
        user = \<lparr>u_id = 0, walletAddress = ''0xa1'', totalUsdBalance = 0,
                 floatingUsdBalance = 0, borrowedUsdAmount = 0\<rparr>;
        chain = \<lparr>c_chainId = 80094, c_chainName = ''berachain'', c_relayerAddress = ''0xre'',
                  c_nftContractAddress = ''0xn'', c_vaultContractAddress = ''0xv'',
                  c_assets = [''0xe'']\<rparr>;
        request = \<lparr>rq_requestId = ''0xr1'', rq_tokenId = 5, rq_protocol = ''0xp1'',
                    rq_asset = ''0xe'', rq_sender = ''0xa1'', rq_amount = ''100'',
                    rq_deadline = 1700000000, rq_status = 1, rq_errorData = None,
                    rq_chainId = 80094\<rparr>;
        env = \<lparr>rv_currentTime = 1699990000, rv_users = [user], rv_lib = lib,
                rv_transfers = [t1], rv_vaultEvents = [],
                rv_totalLTV = (\<lambda>tokenId. 800),
                rv_totalUtilization = (\<lambda>tokenId chainId. 100),
                rv_amountInUsd = (\<lambda>asset amount chainId. 100),
                rv_relayerContracts =
                  (\<lambda>chainId. if chainId = 80094
                             then Some (\<lambda>calls requestId approval. None)
                             else None)\<rparr>;
        st = \<lparr>rs_calls = [], rs_request = request\<rparr>
    in find (\<lambda>u. walletAddress u = rq_sender (rs_request st)) (rv_users env) = Some user
       \<and> rv_relayerContracts env (c_chainId chain) \<noteq> None
       \<and> validateAndProcessRequest env chain st
           = (None, \<lparr>rs_calls = [(''0xr1'', True)],
                     rs_request = \<lparr>rq_requestId = ''0xr1'', rq_tokenId = 5, rq_protocol = ''0xp1'',
                    rq_asset = ''0xe'', rq_sender = ''0xa1'', rq_amount = ''100'',
                    rq_deadline = 1700000000, rq_status = 2, rq_errorData = None,
                    rq_chainId = 80094\<rparr>\<rparr>))"
proof -
  let ?lib = "\<lparr>ml_leaf = (\<lambda>owner tokenId. Some (owner @ tokenId)),
                ml_getRoot = concat,
                ml_getProof = (\<lambda>leaves leaf. leaves),
                ml_verify = (\<lambda>proof leaf mroot. mroot = concat proof)\<rparr>"
  let ?t1 = "\<lparr>nt_chainId = 80094, nt_chainName = ''berachain'', nt_transactionHash = ''0xh1'',
               nt_blockNumber = 10, nt_blockHash = ''0xb10'', nt_tokenAddress = ''0xn'',
               nt_tokenId = ''5'', nt_fromAddress = ''0xb2'', nt_toAddress = ''0xa1'',
               nt_transactionTimestamp = 1000, nt_includedInMerkle = True,
               nt_merkleRoot = Some ''0x0xa15'', nt_logIndex = None\<rparr>"
  let ?user = "\<lparr>u_id = 0, walletAddress = ''0xa1'', totalUsdBalance = 0,
                 floatingUsdBalance = 0, borrowedUsdAmount = 0\<rparr>"
  let ?chain = "\<lparr>c_chainId = 80094, c_chainName = ''berachain'', c_relayerAddress = ''0xre'',
                  c_nftContractAddress = ''0xn'', c_vaultContractAddress = ''0xv'',
                  c_assets = [''0xe'']\<rparr>"
  let ?request = "\<lparr>rq_requestId = ''0xr1'', rq_tokenId = 5, rq_protocol = ''0xp1'',
                    rq_asset = ''0xe'', rq_sender = ''0xa1'', rq_amount = ''100'',
                    rq_deadline = 1700000000, rq_status = 1, rq_errorData = None,
                    rq_chainId = 80094\<rparr>"
  let ?env = "\<lparr>rv_currentTime = 1699990000, rv_users = [?user], rv_lib = ?lib,
                rv_transfers = [?t1], rv_vaultEvents = [],
                rv_totalLTV = (\<lambda>tokenId. 800),
                rv_totalUtilization = (\<lambda>tokenId chainId. 100),
                rv_amountInUsd = (\<lambda>asset amount chainId. 100),
                rv_relayerContracts =
                  (\<lambda>chainId. if chainId = 80094
                             then Some (\<lambda>calls requestId approval. None)
                             else None)\<rparr>"
  let ?st = "\<lparr>rs_calls = [], rs_request = ?request\<rparr>"
  have own: "RelayerService_verifyNftOwnership ?lib [?t1] [] ''0xa1'' 5"
    by (simp add: Let_def findLatestWithRoot_def ownershipUpTo_def transfersUpTo_def
      MerkleService_getCurrentOwnershipFromTransfers_def recordOwner_def toLowerCase_def
      lowerChar_def getMerkleProof_def createLeavesFromOwnership_def objectEntries_def
      isArrayIndex_def isDigitChar_def parseDecimal_def RelayerService_verifyNftOwnership_def
      MerkleService_verifyNftOwnership_def)
  from C2_collateral_request_verdict
         [where st = ?st and env = ?env and chain = ?chain and user = ?user
            and relayerContract = "\<lambda>calls requestId approval. None"]
  show ?thesis
    by (simp add: Let_def own)
qed

end
